theory Spec2Isabelle
  imports Main "HOL-Library.Sublist"
begin

section \<open>Panopticon: event-to-record transformation and log placement (run.py)\<close>

text \<open>
  Python strings are modelled as \<open>string\<close>, read as the UTF-8 bytes of the text. Every
  character that run.py tests for, removes or inserts is ASCII, and no byte of a multi-byte
  UTF-8 sequence is below 0x80, so filtering and replacing single ASCII characters acts on
  the bytes exactly as it acts on Python's code points.
\<close>

subsection \<open>Characters and library string functions\<close>

abbreviation newline :: char where
  "newline \<equiv> CHR 0x0A"

abbreviation backslash :: char where
  "backslash \<equiv> CHR 0x5C"

abbreviation dquote :: char where
  "dquote \<equiv> CHR 0x22"

text \<open>
  \<^verbatim>\<open>re.sub(cls, repl, s)\<close> for a pattern that is one character class: the scan goes
  left to right, every character of the class is replaced by \<open>repl\<close>, every other character
  is copied.
\<close>

fun re_sub :: "(char \<Rightarrow> bool) \<Rightarrow> string \<Rightarrow> string \<Rightarrow> string" where
  "re_sub cls repl [] = []"
| "re_sub cls repl (c # cs) =
     (if cls c then repl @ re_sub cls repl cs else c # re_sub cls repl cs)"

text \<open>\<^verbatim>\<open>s.replace(old, new)\<close> where \<open>old\<close> is a single character.\<close>

fun str_replace :: "char \<Rightarrow> string \<Rightarrow> string \<Rightarrow> string" where
  "str_replace old new [] = []"
| "str_replace old new (c # cs) =
     (if c = old then new @ str_replace old new cs else c # str_replace old new cs)"

subsection \<open>Filename sanitizer\<close>

text \<open>
  The character class of line 27, \<^verbatim>\<open>[/\\:*?"<>|\x00-\x1f]\<close>: nine punctuation characters
  and the range 0x00 to 0x1F.
\<close>

definition filename_class :: "char \<Rightarrow> bool" where
  "filename_class c \<longleftrightarrow>
     c \<in> set [CHR ''/'', backslash, CHR '':'', CHR ''*'', CHR ''?'', dquote,
               CHR ''<'', CHR ''>'', CHR ''|'']
     \<or> (of_char c :: nat) \<le> 0x1F"

definition clean_filename :: "string \<Rightarrow> string" where
  "clean_filename string = re_sub filename_class [] string"

subsection \<open>Errors and module-level names\<close>

text \<open>The exceptions that the modelled code can raise.\<close>

datatype error =
    NameError string
  | AttributeError
  | TypeError
  | OverflowError
  | FileNotFoundError

text \<open>
  The names bound at module level once run.py has run down to \<^verbatim>\<open>client.run\<close>: the
  imports of lines 9 to 14 (\<^verbatim>\<open>from datetime import timezone\<close> binds \<open>timezone\<close> only),
  \<open>config\<close>, \<open>client\<close> and the functions. A name read inside a function that is neither
  local nor in this table nor a builtin raises NameError when the line is executed.
\<close>

datatype pyval = PyModule string | PyClass string | PyDict | PyObject | PyFunction

definition module_globals :: "(string \<times> pyval) list" where
  "module_globals =
     [(''base64'', PyModule ''base64''), (''timezone'', PyClass ''timezone''),
      (''os'', PyModule ''os''), (''re'', PyModule ''re''),
      (''discord'', PyModule ''discord''), (''yaml'', PyModule ''yaml''),
      (''config'', PyDict), (''clean_filename'', PyFunction),
      (''make_filename'', PyFunction), (''make_audit_filename'', PyFunction),
      (''make_message'', PyFunction), (''make_audit_ban'', PyFunction),
      (''make_audit'', PyFunction), (''write'', PyFunction), (''client'', PyObject),
      (''on_message'', PyFunction), (''on_message_edit'', PyFunction),
      (''on_member_ban'', PyFunction), (''on_member_unban'', PyFunction),
      (''on_guild_available'', PyFunction), (''on_guild_unavailable'', PyFunction),
      (''on_guild_remove'', PyFunction), (''on_guild_add'', PyFunction),
      (''on_ready'', PyFunction)]"

definition lookup_global :: "string \<Rightarrow> error + pyval" where
  "lookup_global name =
     (case map_of module_globals name of
        None \<Rightarrow> Inl (NameError name)
      | Some v \<Rightarrow> Inr v)"

subsection \<open>Decimal rendering\<close>

definition digit_char :: "nat \<Rightarrow> char" where
  "digit_char d = ''0123456789'' ! d"

fun str_nat :: "nat \<Rightarrow> string" where
  "str_nat n =
     (if n < 10 then [digit_char n] else str_nat (n div 10) @ [digit_char (n mod 10)])"

declare str_nat.simps [simp del]

text \<open>\<^verbatim>\<open>str(i)\<close>, as \<^verbatim>\<open>'{}'.format(i)\<close> renders an integer.\<close>

definition str_int :: "int \<Rightarrow> string" where
  "str_int i = (if i < 0 then CHR ''-'' # str_nat (nat (- i)) else str_nat (nat i))"

definition zfill :: "nat \<Rightarrow> string \<Rightarrow> string" where
  "zfill w s = replicate (w - length s) CHR ''0'' @ s"

subsection \<open>Timestamps\<close>

text \<open>
  A \<^verbatim>\<open>datetime\<close> value, by the fields that \<^verbatim>\<open>strftime\<close> reads here (microseconds are
  never printed). \<^verbatim>\<open>%F\<close> is \<^verbatim>\<open>%Y-%m-%d\<close>; the year is written with four digits as for
  every year from 1000 on.
\<close>

record datetime =
  year :: nat
  month :: nat
  day :: nat
  hour :: nat
  minute :: nat
  second :: nat

definition strftime_F :: "datetime \<Rightarrow> string" where
  "strftime_F t =
     zfill 4 (str_nat (year t)) @ ''-'' @ zfill 2 (str_nat (month t)) @ ''-''
       @ zfill 2 (str_nat (day t))"

definition strftime_HMS :: "datetime \<Rightarrow> string" where
  "strftime_HMS t =
     ''['' @ zfill 2 (str_nat (hour t)) @ '':'' @ zfill 2 (str_nat (minute t)) @ '':''
       @ zfill 2 (str_nat (second t)) @ '']''"

definition is_leap :: "nat \<Rightarrow> bool" where
  "is_leap y = (if y mod 400 = 0 then True else if y mod 100 = 0 then False else y mod 4 = 0)"

definition days_in_month :: "nat \<Rightarrow> nat \<Rightarrow> nat" where
  "days_in_month y m =
     (if m = 2 then (if is_leap y then 29 else 28)
      else if m \<in> {4, 6, 9, 11} then 30 else 31)"

definition next_day :: "datetime \<Rightarrow> datetime" where
  "next_day t =
     (if day t < days_in_month (year t) (month t) then t\<lparr>day := day t + 1\<rparr>
      else if month t < 12 then t\<lparr>month := month t + 1, day := 1\<rparr>
      else t\<lparr>year := year t + 1, month := 1, day := 1\<rparr>)"

definition prev_day :: "datetime \<Rightarrow> datetime" where
  "prev_day t =
     (if 1 < day t then t\<lparr>day := day t - 1\<rparr>
      else if 1 < month t
        then t\<lparr>month := month t - 1, day := days_in_month (year t) (month t - 1)\<rparr>
      else t\<lparr>year := year t - 1, month := 12, day := 31\<rparr>)"

text \<open>
  What the process gets from its surroundings: the clock (\<^verbatim>\<open>datetime.utcnow()\<close>) and
  the system's local time zone, as the offset from UTC in seconds at a given UTC time.
\<close>

record env =
  utcnow :: datetime
  utcoffset :: "datetime \<Rightarrow> int"

text \<open>
  \<^verbatim>\<open>time.replace(tzinfo=timezone.utc).astimezone(tz=None)\<close>: the same instant on the
  local clock. The seconds of the day move by the offset and the date follows.
\<close>

definition astimezone_local :: "env \<Rightarrow> datetime \<Rightarrow> datetime" where
  "astimezone_local e t =
     (let total = int (hour t * 3600 + minute t * 60 + second t) + utcoffset e t;
          shift = total div 86400;
          sod = nat (total mod 86400);
          d = (if 0 \<le> shift then (next_day ^^ nat shift) t else (prev_day ^^ nat (- shift)) t)
      in d\<lparr>hour := sod div 3600, minute := sod div 60 mod 60, second := sod mod 60\<rparr>)"

subsection \<open>Configuration and event objects\<close>

text \<open>The keys of config.yaml that the modelled functions read.\<close>

record config =
  log_dir :: string
  ignore_servers :: "int list"
  use_localtime :: bool

text \<open>
  The gateway library's objects (discord.py 1.x, the version whose names run.py uses:
  \<open>guild\<close>, \<open>edited_at\<close>, \<open>TextChannel\<close>), by the attributes they have. The channel's
  type decides the path; \<open>OtherChannel\<close> is a channel of any type other than the three
  that line 39 to line 55 test for. A direct-message channel has its \<open>recipient\<close>; a group
  channel has a name only if one was given, otherwise its \<open>name\<close> is None. A message's
  guild is the guild of its channel and is None in a private channel. An attachment is an
  object with attributes, of which \<open>url\<close> is one.
\<close>

record guild =
  guild_name :: string
  guild_id :: int

record user =
  user_name :: string
  discriminator :: string
  user_id :: int

datatype channel =
    TextChannel guild string int
  | DMChannel user
  | GroupChannel "string option" int
  | OtherChannel "guild option"

record attachment =
  url :: string

record message =
  msg_id :: int
  created_at :: datetime
  edited_at :: "datetime option"
  channel :: channel
  author :: user
  clean_content :: string
  attachments :: "attachment list"

definition message_guild :: "message \<Rightarrow> guild option" where
  "message_guild m =
     (case channel m of
        TextChannel g _ _ \<Rightarrow> Some g
      | DMChannel _ \<Rightarrow> None
      | GroupChannel _ _ \<Rightarrow> None
      | OtherChannel g \<Rightarrow> g)"

subsection \<open>Path builder\<close>

text \<open>
  Line 51 reads \<^verbatim>\<open>message.channel.user\<close>. A direct-message channel of the library has
  the attributes \<open>recipient\<close>, \<open>me\<close> and \<open>id\<close> and none called \<open>user\<close>, so the read
  raises AttributeError, whoever the recipient is.
\<close>

definition dm_channel_user :: "user \<Rightarrow> error + user" where
  "dm_channel_user recipient = Inl AttributeError"

text \<open>
  \<^verbatim>\<open>clean_filename(name)\<close> where the name may be None: \<^verbatim>\<open>re.sub\<close> raises TypeError
  for an argument that is not a string.
\<close>

definition clean_filename_opt :: "string option \<Rightarrow> error + string" where
  "clean_filename_opt name =
     (case name of None \<Rightarrow> Inl TypeError | Some string \<Rightarrow> Inr (clean_filename string))"

text \<open>
  The result is an exception, a path, or None when no branch of lines 39 to 61 applies.
\<close>

definition make_filename :: "config \<Rightarrow> message \<Rightarrow> error + string option" where
  "make_filename cfg message =
     (let time = (case edited_at message of Some t \<Rightarrow> t | None \<Rightarrow> created_at message);
          timestamp = strftime_F time
      in case channel message of
           TextChannel g cname cid \<Rightarrow>
             Inr (Some (log_dir cfg @ ''/'' @ clean_filename (guild_name g) @ ''-''
                        @ str_int (guild_id g) @ ''/#'' @ clean_filename cname @ ''-''
                        @ str_int cid @ ''/'' @ timestamp @ ''.log''))
         | DMChannel recipient \<Rightarrow>
             (case dm_channel_user recipient of
                Inl err \<Rightarrow> Inl err
              | Inr u \<Rightarrow>
                  Inr (Some (log_dir cfg @ ''/DM/'' @ clean_filename (user_name u) @ ''-''
                             @ str_int (user_id u) @ ''/'' @ timestamp @ ''.log'')))
         | GroupChannel gname gid \<Rightarrow>
             (case clean_filename_opt gname of
                Inl err \<Rightarrow> Inl err
              | Inr cleaned \<Rightarrow>
                  Inr (Some (log_dir cfg @ ''/DM/'' @ cleaned @ ''-''
                             @ str_int gid @ ''/'' @ timestamp @ ''.log'')))
         | OtherChannel _ \<Rightarrow> Inr None)"

text \<open>
  Lines 68, 132 and 166: \<^verbatim>\<open>datetime.datetime.utcnow()\<close> reads the global \<open>datetime\<close>
  and then asks the module for the clock.
\<close>

definition datetime_utcnow :: "env \<Rightarrow> error + datetime" where
  "datetime_utcnow e =
     (case lookup_global ''datetime'' of
        Inl err \<Rightarrow> Inl err
      | Inr v \<Rightarrow> if v = PyModule ''datetime'' then Inr (utcnow e) else Inl AttributeError)"

text \<open>
  \<open>make_audit_filename\<close> is line 68 followed by lines 69 to 82; the second part is
  \<open>make_audit_filename_at\<close>, the function body once \<open>time\<close> has its value. The guild read
  in the last branch may be None (the result of the search of line 260).
\<close>

definition make_audit_filename_at ::
  "datetime \<Rightarrow> config \<Rightarrow> string \<Rightarrow> guild option \<Rightarrow> error + string" where
  "make_audit_filename_at time cfg event g =
     (let timestamp = strftime_F time
      in if event = ''on_guild_add'' \<or> event = ''on_guild_remove''
         then Inr (log_dir cfg @ ''/AUDIT/'' @ timestamp @ ''.log'')
         else (case g of
                 None \<Rightarrow> Inl AttributeError
               | Some gd \<Rightarrow>
                   Inr (log_dir cfg @ ''/'' @ clean_filename (guild_name gd) @ ''-''
                        @ str_int (guild_id gd) @ ''/AUDIT/'' @ timestamp @ ''.log'')))"

definition make_audit_filename :: "env \<Rightarrow> config \<Rightarrow> string \<Rightarrow> guild option \<Rightarrow> error + string" where
  "make_audit_filename e cfg event g =
     (case datetime_utcnow e of
        Inl err \<Rightarrow> Inl err
      | Inr time \<Rightarrow> make_audit_filename_at time cfg event g)"

subsection \<open>Record formatter\<close>

text \<open>
  \<^verbatim>\<open>n.to_bytes(length, byteorder='little')\<close>: OverflowError for a negative number and
  for one that does not fit, otherwise the digits of \<open>n\<close> in base 256, lowest first.
\<close>

definition to_bytes_little :: "int \<Rightarrow> nat \<Rightarrow> error + nat list" where
  "to_bytes_little n len =
     (if n < 0 \<or> 256 ^ len \<le> n then Inl OverflowError
      else Inr (map (\<lambda>i. nat (n div 256 ^ i mod 256)) [0..<len]))"

text \<open>
  \<^verbatim>\<open>base64.b64encode\<close> (RFC 4648, standard alphabet, padded): three bytes give four
  characters of six bits each; a last group of one or two bytes is filled with zero bits
  and closed with \<open>=\<close>.
\<close>

definition b64_alphabet :: string where
  "b64_alphabet = ''ABCDEFGHIJKLMNOPQRSTUVWXYZabcdefghijklmnopqrstuvwxyz0123456789+/''"

definition b64_char :: "nat \<Rightarrow> char" where
  "b64_char k = b64_alphabet ! k"

fun b64encode :: "nat list \<Rightarrow> string" where
  "b64encode (a # b # c # rest) =
     (let n = a * 65536 + b * 256 + c
      in [b64_char (n div 262144), b64_char (n div 4096 mod 64),
          b64_char (n div 64 mod 64), b64_char (n mod 64)] @ b64encode rest)"
| "b64encode [a, b] =
     (let n = (a * 256 + b) * 4
      in [b64_char (n div 4096), b64_char (n div 64 mod 64), b64_char (n mod 64), CHR ''=''])"
| "b64encode [a] =
     (let n = a * 16
      in [b64_char (n div 64), b64_char (n mod 64), CHR ''='', CHR ''=''])"
| "b64encode [] = []"

text \<open>The marker that follows a line break inside a message (line 108).\<close>

definition newline_marker :: string where
  "newline_marker = ''(newline) ''"

text \<open>
  \<^verbatim>\<open>'{0[url]}'.format(attach)\<close> subscripts the attachment: \<^verbatim>\<open>attach['url']\<close>. The
  library's attachment objects have the attribute \<open>url\<close> and no subscript operation, so
  the subscript raises TypeError, whatever the key.
\<close>

definition attachment_getitem :: "attachment \<Rightarrow> string \<Rightarrow> error + string" where
  "attachment_getitem attach key = Inl TypeError"

text \<open>
  The loop of lines 112 and 113, for a given subscript operation \<open>getitem\<close>: it adds one
  line per attachment to the text so far and stops at the first exception. Line 111 skips
  the loop for an empty list, on which the loop does nothing.
\<close>

fun format_attachments ::
  "(attachment \<Rightarrow> string \<Rightarrow> error + string) \<Rightarrow> string \<Rightarrow> attachment list \<Rightarrow> error + string" where
  "format_attachments getitem acc [] = Inr acc"
| "format_attachments getitem acc (attach # rest) =
     (case getitem attach ''url'' of
        Inl err \<Rightarrow> Inl err
      | Inr u \<Rightarrow> format_attachments getitem (acc @ newline # ''(attach) '' @ u) rest)"

definition make_message :: "env \<Rightarrow> config \<Rightarrow> message \<Rightarrow> error + string" where
  "make_message e cfg message =
     (case to_bytes_little (msg_id message) 8 of
        Inl err \<Rightarrow> Inl err
      | Inr bs \<Rightarrow>
          (let message_id =
                 (if edited_at message \<noteq> None then ''[E:'' else ''['') @ b64encode bs @ '']'';
               time = (case edited_at message of Some t \<Rightarrow> t | None \<Rightarrow> created_at message);
               time = (if use_localtime cfg then astimezone_local e time else time);
               timestamp = strftime_HMS time;
               author = ''<'' @ user_name (author message) @ ''#''
                        @ discriminator (author message) @ ''>'';
               content = str_replace newline (newline # newline_marker) (clean_content message)
           in case format_attachments attachment_getitem [] (attachments message) of
                Inl err \<Rightarrow> Inl err
              | Inr attachment_lines \<Rightarrow>
                  Inr (message_id @ '' '' @ timestamp @ '' '' @ author @ '' '' @ content
                       @ '' '' @ attachment_lines)))"

text \<open>
  The two audit formatters, each split like \<open>make_audit_filename\<close>: the first statement
  reads the clock (lines 132 and 166), the rest of the body is the function \<open>_at\<close>.
\<close>

definition make_audit_ban_at ::
  "env \<Rightarrow> datetime \<Rightarrow> config \<Rightarrow> string \<Rightarrow> guild option \<Rightarrow> user \<Rightarrow> error + string option" where
  "make_audit_ban_at e time cfg event g u =
     (let time = (if use_localtime cfg then astimezone_local e time else time);
          timestamp = strftime_HMS time;
          kind = (if event = ''on_member_ban'' then Some ''[BAN]''
                  else if event = ''on_member_unban'' then Some ''[UNBAN]''
                  else None)
      in case kind of
           None \<Rightarrow> Inr None
         | Some ty \<Rightarrow>
             (let member = ''<User:'' @ user_name u @ ''#'' @ discriminator u @ ''>(ID:''
                           @ str_int (user_id u) @ '')''
              in Inr (Some (timestamp @ '' '' @ ty @ '' '' @ member))))"

definition make_audit_ban ::
  "env \<Rightarrow> config \<Rightarrow> string \<Rightarrow> guild option \<Rightarrow> user \<Rightarrow> error + string option" where
  "make_audit_ban e cfg event g u =
     (case datetime_utcnow e of
        Inl err \<Rightarrow> Inl err
      | Inr time \<Rightarrow> make_audit_ban_at e time cfg event g u)"

definition make_audit_at ::
  "env \<Rightarrow> datetime \<Rightarrow> config \<Rightarrow> string \<Rightarrow> guild option \<Rightarrow> error + string option" where
  "make_audit_at e time cfg event g =
     (let time = (if use_localtime cfg then astimezone_local e time else time);
          timestamp = strftime_HMS time;
          kind = (if event = ''on_guild_unavailable'' then Some ''[GUILD OFFLINE]''
                  else if event = ''on_guild_available'' then Some ''[GUILD ONLINE]''
                  else if event = ''on_guild_remove'' then Some ''[GUILD REMOVED/BANNED]''
                  else if event = ''on_guild_add'' then Some ''[GUILD ADDED]''
                  else None)
      in case kind of
           None \<Rightarrow> Inr None
         | Some ty \<Rightarrow>
             (case g of
                None \<Rightarrow> Inl AttributeError
              | Some gd \<Rightarrow>
                  Inr (Some (timestamp @ '' '' @ ty @ '' '' @ ''<Guild:'' @ guild_name gd
                             @ ''>(ID:'' @ str_int (guild_id gd) @ '')''))))"

definition make_audit :: "env \<Rightarrow> config \<Rightarrow> string \<Rightarrow> guild option \<Rightarrow> error + string option" where
  "make_audit e cfg event g =
     (case datetime_utcnow e of
        Inl err \<Rightarrow> Inl err
      | Inr time \<Rightarrow> make_audit_at e time cfg event g)"

subsection \<open>Log writer\<close>

text \<open>
  What the handlers can change: the directories made, the contents of the log files and
  the lines printed. A call returns its outcome together with the world it leaves, so
  that what was done before an exception stays done. Failures of the operating system
  (permissions, a full disk) are outside the model.
\<close>

record world =
  dirs :: "string set"
  files :: "string \<rightharpoonup> string"
  console :: "string list"

text \<open>\<^verbatim>\<open>os.path.dirname\<close> on POSIX paths.\<close>

definition dirname :: "string \<Rightarrow> string" where
  "dirname p =
     (let head = rev (dropWhile (\<lambda>c. c \<noteq> CHR ''/'') (rev p))
      in if head \<noteq> [] \<and> head \<noteq> replicate (length head) CHR ''/''
         then rev (dropWhile (\<lambda>c. c = CHR ''/'') (rev head)) else head)"

text \<open>
  \<^verbatim>\<open>write(filename, string)\<close> of line 198 (\<open>write\<close> is a keyword of Isabelle, hence
  the name \<open>write_file\<close>): \<^verbatim>\<open>os.path.dirname(None)\<close> raises TypeError,
  \<^verbatim>\<open>os.makedirs('')\<close> raises FileNotFoundError, opening in mode \<open>a\<close> creates the file,
  and \<^verbatim>\<open>None + "\n"\<close> raises TypeError.
\<close>

definition write_file :: "string option \<Rightarrow> string option \<Rightarrow> world \<Rightarrow> (error + unit) \<times> world" where
  "write_file filename string w =
     (case filename of
        None \<Rightarrow> (Inl TypeError, w)
      | Some path \<Rightarrow>
          (let d = dirname path
           in if d = [] then (Inl FileNotFoundError, w)
              else
                (let old = (case files w path of None \<Rightarrow> [] | Some text \<Rightarrow> text);
                     w1 = w\<lparr>dirs := insert d (dirs w), files := (files w)(path \<mapsto> old)\<rparr>
                 in case string of
                      None \<Rightarrow> (Inl TypeError, w1)
                    | Some line \<Rightarrow>
                        (Inr (), w1\<lparr>files := (files w1)(path \<mapsto> old @ line @ [newline])\<rparr>))))"

definition print :: "string \<Rightarrow> world \<Rightarrow> world" where
  "print string w = w\<lparr>console := console w @ [string]\<rparr>"

subsection \<open>Event dispatcher\<close>

definition on_message :: "env \<Rightarrow> config \<Rightarrow> message \<Rightarrow> world \<Rightarrow> (error + unit) \<times> world" where
  "on_message e cfg message w =
     (if (case message_guild message of
            None \<Rightarrow> False
          | Some g \<Rightarrow> guild_id g \<in> set (ignore_servers cfg))
      then (Inr (), w)
      else
        (case make_filename cfg message of
           Inl err \<Rightarrow> (Inl err, w)
         | Inr filename \<Rightarrow>
             (case make_message e cfg message of
                Inl err \<Rightarrow> (Inl err, w)
              | Inr string \<Rightarrow>
                  (case write_file filename (Some string) w of
                     (Inl err, w') \<Rightarrow> (Inl err, w')
                   | (Inr _, w') \<Rightarrow> (Inr (), print string w')))))"

definition on_message_edit ::
  "env \<Rightarrow> config \<Rightarrow> message \<Rightarrow> message \<Rightarrow> world \<Rightarrow> (error + unit) \<times> world" where
  "on_message_edit e cfg before message w =
     (if (case message_guild message of
            None \<Rightarrow> False
          | Some g \<Rightarrow> guild_id g \<in> set (ignore_servers cfg))
      then (Inr (), w)
      else
        (case make_filename cfg message of
           Inl err \<Rightarrow> (Inl err, w)
         | Inr filename \<Rightarrow>
             (case make_message e cfg message of
                Inl err \<Rightarrow> (Inl err, w)
              | Inr string \<Rightarrow>
                  (case write_file filename (Some string) w of
                     (Inl err, w') \<Rightarrow> (Inl err, w')
                   | (Inr _, w') \<Rightarrow> (Inr (), print string w')))))"

text \<open>
  The test \<^verbatim>\<open>guild and guild.id in IGNORE_GUILDS\<close> of the audit handlers. A guild object
  is true, so the right operand is evaluated and the global \<open>IGNORE_GUILDS\<close> is read.
  Membership in a dictionary asks for a key; the other kinds of global are not containers.
\<close>

definition guild_in_IGNORE_GUILDS :: "guild option \<Rightarrow> error + bool" where
  "guild_in_IGNORE_GUILDS g =
     (case g of
        None \<Rightarrow> Inr False
      | Some gd \<Rightarrow>
          (case lookup_global ''IGNORE_GUILDS'' of
             Inl err \<Rightarrow> Inl err
           | Inr v \<Rightarrow> if v = PyDict then Inr False else Inl TypeError))"

text \<open>The three lines that close every audit handler: path, record, write.\<close>

definition log_audit ::
  "error + string \<Rightarrow> error + string option \<Rightarrow> world \<Rightarrow> (error + unit) \<times> world" where
  "log_audit filename string w =
     (case filename of
        Inl err \<Rightarrow> (Inl err, w)
      | Inr path \<Rightarrow>
          (case string of
             Inl err \<Rightarrow> (Inl err, w)
           | Inr line \<Rightarrow> write_file (Some path) line w))"

definition on_member_ban ::
  "env \<Rightarrow> config \<Rightarrow> guild option \<Rightarrow> user \<Rightarrow> world \<Rightarrow> (error + unit) \<times> world" where
  "on_member_ban e cfg g member w =
     (let event = ''on_member_ban''
      in case guild_in_IGNORE_GUILDS g of
           Inl err \<Rightarrow> (Inl err, w)
         | Inr ignored \<Rightarrow>
             if ignored then (Inr (), w)
             else log_audit (make_audit_filename e cfg event g)
                    (make_audit_ban e cfg event g member) w)"

definition on_member_unban ::
  "env \<Rightarrow> config \<Rightarrow> guild option \<Rightarrow> user \<Rightarrow> world \<Rightarrow> (error + unit) \<times> world" where
  "on_member_unban e cfg g u w =
     (let event = ''on_member_unban''
      in case guild_in_IGNORE_GUILDS g of
           Inl err \<Rightarrow> (Inl err, w)
         | Inr ignored \<Rightarrow>
             if ignored then (Inr (), w)
             else log_audit (make_audit_filename e cfg event g)
                    (make_audit_ban e cfg event g u) w)"

definition on_guild_available ::
  "env \<Rightarrow> config \<Rightarrow> guild option \<Rightarrow> world \<Rightarrow> (error + unit) \<times> world" where
  "on_guild_available e cfg g w =
     (let event = ''on_guild_available''
      in case guild_in_IGNORE_GUILDS g of
           Inl err \<Rightarrow> (Inl err, w)
         | Inr ignored \<Rightarrow>
             if ignored then (Inr (), w)
             else log_audit (make_audit_filename e cfg event g) (make_audit e cfg event g) w)"

text \<open>
  Line 260 reads the global \<open>utils\<close>; \<^verbatim>\<open>discord.Client.guilds\<close>, taken from the class,
  is a property object, which \<^verbatim>\<open>find\<close> cannot iterate.
\<close>

definition on_guild_unavailable ::
  "env \<Rightarrow> config \<Rightarrow> guild option \<Rightarrow> world \<Rightarrow> (error + unit) \<times> world" where
  "on_guild_unavailable e cfg g w =
     (let event = ''on_guild_unavailable''
      in case guild_in_IGNORE_GUILDS g of
           Inl err \<Rightarrow> (Inl err, w)
         | Inr ignored \<Rightarrow>
             if ignored then (Inr (), w)
             else (case lookup_global ''utils'' of
                     Inl err \<Rightarrow> (Inl err, w)
                   | Inr _ \<Rightarrow> (Inl TypeError, w)))"

definition on_guild_remove ::
  "env \<Rightarrow> config \<Rightarrow> guild option \<Rightarrow> world \<Rightarrow> (error + unit) \<times> world" where
  "on_guild_remove e cfg g w =
     (let event = ''on_guild_remove''
      in case guild_in_IGNORE_GUILDS g of
           Inl err \<Rightarrow> (Inl err, w)
         | Inr ignored \<Rightarrow>
             if ignored then (Inr (), w)
             else log_audit (make_audit_filename e cfg event g) (make_audit e cfg event g) w)"

definition on_guild_add ::
  "env \<Rightarrow> config \<Rightarrow> guild option \<Rightarrow> world \<Rightarrow> (error + unit) \<times> world" where
  "on_guild_add e cfg g w =
     (let event = ''on_guild_add''
      in case guild_in_IGNORE_GUILDS g of
           Inl err \<Rightarrow> (Inl err, w)
         | Inr ignored \<Rightarrow>
             if ignored then (Inr (), w)
             else log_audit (make_audit_filename e cfg event g) (make_audit e cfg event g) w)"

subsection \<open>Reading paths and records\<close>

text \<open>
  How a log path and a record are read back in the statements below: the file name is
  what follows the last \<open>/\<close> of a path (\<^verbatim>\<open>os.path.basename\<close>), the date bucket is the
  file name without its four-character extension \<open>.log\<close>, and the physical lines of a
  text are its pieces between line breaks (\<^verbatim>\<open>text.split('\n')\<close>), which \<open>join_lines\<close>
  puts together again.
\<close>

definition basename :: "string \<Rightarrow> string" where
  "basename p = rev (takeWhile (\<lambda>c. c \<noteq> CHR ''/'') (rev p))"

definition date_bucket :: "string \<Rightarrow> string" where
  "date_bucket p = (let b = basename p in take (length b - 4) b)"

fun split_lines :: "string \<Rightarrow> string list" where
  "split_lines [] = [Nil]"
| "split_lines (c # cs) =
     (if c = newline then [] # split_lines cs
      else (case split_lines cs of
              [] \<Rightarrow> [c # Nil]
            | l # ls \<Rightarrow> (c # l) # ls))"

fun join_lines :: "string list \<Rightarrow> string" where
  "join_lines [] = []"
| "join_lines [l] = l"
| "join_lines (l # ls) = l @ newline # join_lines ls"

subsection \<open>Sample events\<close>

text \<open>
  A message without attachments, written one second before midnight and edited two
  seconds after it, from a guild that the sample configuration ignores, on a machine one
  hour east of UTC; and the same message with two attachments.
\<close>

definition sample_created :: datetime where
  "sample_created = \<lparr>year = 2021, month = 12, day = 31, hour = 23, minute = 59, second = 59\<rparr>"

definition sample_edited :: datetime where
  "sample_edited = \<lparr>year = 2022, month = 1, day = 1, hour = 0, minute = 0, second = 1\<rparr>"

definition sample_env :: env where
  "sample_env = \<lparr>utcnow = sample_edited, utcoffset = (\<lambda>t. 3600)\<rparr>"

definition sample_config :: config where
  "sample_config = \<lparr>log_dir = ''logs'', ignore_servers = [42], use_localtime = False\<rparr>"

definition sample_guild :: guild where
  "sample_guild = \<lparr>guild_name = ''My/Guild'', guild_id = 42\<rparr>"

definition sample_user :: user where
  "sample_user = \<lparr>user_name = ''alice'', discriminator = ''0001'', user_id = 7\<rparr>"

definition sample_message :: message where
  "sample_message =
     \<lparr>msg_id = 1, created_at = sample_created, edited_at = None,
      channel = TextChannel sample_guild ''gen:eral'' 99, author = sample_user,
      clean_content = ''hi'' @ [newline] @ ''there'',
      attachments = []\<rparr>"

definition sample_attached :: message where
  "sample_attached =
     sample_message\<lparr>attachments := [\<lparr>url = ''http://a/1.png''\<rparr>, \<lparr>url = ''http://a/2.png''\<rparr>]\<rparr>"

definition sample_world :: world where
  "sample_world = \<lparr>dirs = {}, files = Map.empty, console = []\<rparr>"

subsection \<open>Sanitizer: lemmas\<close>

lemma re_sub_empty_filter: "re_sub cls [] s = filter (\<lambda>c. \<not> cls c) s"
  by (induction s) simp_all

lemma clean_filename_filter: "clean_filename s = filter (\<lambda>c. \<not> filename_class c) s"
  by (simp add: clean_filename_def re_sub_empty_filter)

text \<open>
  C3. The sanitizer removes exactly the characters \<^verbatim>\<open>/ \ : * ? " < > |\<close> and the control
  characters 0x00 to 0x1F: its result is the input with those characters filtered out, so
  every other character is kept, unchanged and in order, nothing is cut off at any length
  (the result is shorter by the number of removed characters and by nothing else), and the
  function is total.
\<close>

theorem clean_filename_removes_exactly:
  "clean_filename s =
     filter (\<lambda>c. c \<notin> {CHR ''/'', CHR 0x5C, CHR '':'', CHR ''*'', CHR ''?'', CHR 0x22,
                        CHR ''<'', CHR ''>'', CHR ''|''}
                 \<and> 0x1F < (of_char c :: nat)) s
   \<and> length (clean_filename s) + length (filter filename_class s) = length s
   \<and> subseq (clean_filename s) s"
proof -
  have cls: "(\<lambda>c. \<not> filename_class c) =
      (\<lambda>c. c \<notin> {CHR ''/'', CHR 0x5C, CHR '':'', CHR ''*'', CHR ''?'', CHR 0x22,
                  CHR ''<'', CHR ''>'', CHR ''|''}
            \<and> 0x1F < (of_char c :: nat))"
    by (rule ext) (auto simp: filename_class_def)
  have len: "length (filter (\<lambda>c. \<not> filename_class c) s) + length (filter filename_class s)
      = length s"
    using sum_length_filter_compl [of filename_class s] by simp
  show ?thesis
    unfolding clean_filename_filter using cls len by simp
qed

theorem clean_filename_removes_exactly_witness:
  "clean_filename (''a/b'' @ [CHR 0x5C, CHR 0x00, CHR 0x1F] @ ''c:*?<>| d'' @ [CHR 0x22, CHR 0x7F])
     = ''abc d'' @ [CHR 0x7F]"
  using clean_filename_removes_exactly
    [of "''a/b'' @ [CHR 0x5C, CHR 0x00, CHR 0x1F] @ ''c:*?<>| d'' @ [CHR 0x22, CHR 0x7F]"]
  by simp

text \<open>
  C10. The sanitizer is idempotent, and it is the identity on a string that holds none of
  the removed characters.
\<close>

theorem clean_filename_idempotent:
  "clean_filename (clean_filename s) = clean_filename s
   \<and> ((\<forall>c \<in> set s. \<not> filename_class c) \<longrightarrow> clean_filename s = s)"
  by (simp add: clean_filename_filter)

theorem clean_filename_idempotent_witness:
  "clean_filename ''general-chat'' = ''general-chat''
   \<and> clean_filename (clean_filename ''a/b:c'') = clean_filename ''a/b:c''"
proof -
  have clean: "\<forall>c \<in> set ''general-chat''. \<not> filename_class c"
    by (simp add: filename_class_def)
  show ?thesis
    using clean clean_filename_idempotent [of "''general-chat''"]
          clean_filename_idempotent [of "''a/b:c''"]
    by blast
qed

subsection \<open>Decimal rendering and dates: lemmas\<close>

lemma digit_char_mem: "d < 10 \<Longrightarrow> digit_char d \<in> set ''0123456789''"
  unfolding digit_char_def by (rule nth_mem) simp

lemma str_nat_digits: "set (str_nat n) \<subseteq> set ''0123456789''"
proof (induction n rule: str_nat.induct)
  case (1 n)
  show ?case
  proof (cases "n < 10")
    case True
    then show ?thesis
      using digit_char_mem [of n] by (subst str_nat.simps) simp
  next
    case False
    have "n mod 10 < 10" by simp
    then have "digit_char (n mod 10) \<in> set ''0123456789''" by (rule digit_char_mem)
    with 1 False show ?thesis
      by (subst str_nat.simps) simp
  qed
qed

lemma zfill_set: "set (zfill w s) \<subseteq> insert CHR ''0'' (set s)"
  by (auto simp: zfill_def)

lemma zfill_str_nat_no_slash: "CHR ''/'' \<notin> set (zfill w (str_nat n))"
  using zfill_set [of w "str_nat n"] str_nat_digits [of n] by auto

lemma strftime_F_no_slash: "CHR ''/'' \<notin> set (strftime_F t)"
  by (simp add: strftime_F_def zfill_str_nat_no_slash)

lemma basename_append: "CHR ''/'' \<notin> set s \<Longrightarrow> basename (pre @ CHR ''/'' # s) = s"
proof -
  assume a: "CHR ''/'' \<notin> set s"
  have "takeWhile (\<lambda>c. c \<noteq> CHR ''/'') (rev s @ CHR ''/'' # rev pre) = rev s"
    using a by (auto simp: takeWhile_tail)
  then show ?thesis by (simp add: basename_def)
qed

lemma date_bucket_log:
  "CHR ''/'' \<notin> set d \<Longrightarrow> date_bucket (pre @ CHR ''/'' # d @ ''.log'') = d"
proof -
  assume a: "CHR ''/'' \<notin> set d"
  then have "CHR ''/'' \<notin> set (d @ ''.log'')" by simp
  then have "basename (pre @ CHR ''/'' # d @ ''.log'') = d @ ''.log''"
    by (rule basename_append)
  then show ?thesis by (simp add: date_bucket_def)
qed

subsection \<open>The sample events, evaluated\<close>

lemma sample_dates:
  "strftime_F sample_created = ''2021-12-31''" "strftime_F sample_edited = ''2022-01-01''"
  by (simp_all add: sample_created_def sample_edited_def strftime_F_def zfill_def
      str_nat.simps digit_char_def)

lemma bytes_of_one: "to_bytes_little 1 8 = Inr [1, 0, 0, 0, 0, 0, 0, 0]"
  by (simp add: to_bytes_little_def upt_rec)

lemma sample_created_HMS: "strftime_HMS sample_created = ''[23:59:59]''"
  by (simp add: sample_created_def strftime_HMS_def zfill_def str_nat.simps digit_char_def)

lemma sample_created_local:
  "astimezone_local sample_env sample_created
     = \<lparr>year = 2022, month = 1, day = 1, hour = 0, minute = 59, second = 59\<rparr>"
  by (simp add: astimezone_local_def sample_env_def sample_created_def Let_def next_day_def
      days_in_month_def)

lemma sample_local_HMS:
  "strftime_HMS (astimezone_local sample_env sample_created) = ''[00:59:59]''"
  unfolding sample_created_local
  by (simp add: strftime_HMS_def zfill_def str_nat.simps digit_char_def)

lemma sample_content:
  "str_replace newline (newline # newline_marker) (clean_content sample_message)
     = ''hi'' @ [newline] @ ''(newline) there''"
  by (simp add: sample_message_def newline_marker_def)

lemma sample_fields:
  "msg_id sample_message = 1" "edited_at sample_message = None"
  "created_at sample_message = sample_created" "author sample_message = sample_user"
  "use_localtime sample_config = False" "attachments sample_message = []"
  by (simp_all add: sample_message_def sample_config_def)

lemma sample_message_utc:
  "make_message sample_env (sample_config\<lparr>use_localtime := False\<rparr>) sample_message
     = Inr (''[AQAAAAAAAAA=] [23:59:59] <alice#0001> hi'' @ [newline] @ ''(newline) there '')"
  by (simp add: make_message_def sample_fields bytes_of_one b64_char_def b64_alphabet_def
      sample_created_HMS sample_content sample_user_def)

lemma sample_message_local:
  "make_message sample_env (sample_config\<lparr>use_localtime := True\<rparr>) sample_message
     = Inr (''[AQAAAAAAAAA=] [00:59:59] <alice#0001> hi'' @ [newline] @ ''(newline) there '')"
  by (simp add: make_message_def sample_fields bytes_of_one b64_char_def b64_alphabet_def
      sample_local_HMS sample_content sample_user_def)

subsection \<open>Path builder: date bucket\<close>

text \<open>
  C1. For every message, the path builder takes the edit time when there is one and the
  creation time otherwise, and the date bucket of the path it returns (the file name
  without \<open>.log\<close>) is the \<^verbatim>\<open>%Y-%m-%d\<close> date of that time. A path is returned for a
  guild text channel and for a group channel that has a name; in particular a guild text
  message buckets by its creation date while it is unedited and by its edit date once it
  is edited. No path is returned for a direct-message channel (AttributeError), for a
  group channel without a name (TypeError) and for a channel of another type (None).
\<close>

theorem make_filename_date_bucket:
  "map_sum id (map_option date_bucket) (make_filename cfg m) =
     (case channel m of
        TextChannel g cname cid \<Rightarrow>
          Inr (Some (strftime_F (case edited_at m of Some t \<Rightarrow> t | None \<Rightarrow> created_at m)))
      | DMChannel recipient \<Rightarrow> Inl AttributeError
      | GroupChannel gname gid \<Rightarrow>
          (case gname of
             None \<Rightarrow> Inl TypeError
           | Some name \<Rightarrow>
               Inr (Some (strftime_F
                 (case edited_at m of Some t \<Rightarrow> t | None \<Rightarrow> created_at m))))
      | OtherChannel g \<Rightarrow> Inr None)"
proof -
  let ?d = "strftime_F (case edited_at m of Some t \<Rightarrow> t | None \<Rightarrow> created_at m)"
  have b: "\<And>pre. date_bucket (pre @ CHR ''/'' # ?d @ ''.log'') = ?d"
    by (rule date_bucket_log) (rule strftime_F_no_slash)
  show ?thesis
  proof (cases "channel m")
    case (TextChannel g cname cid)
    then show ?thesis
      using b [of "log_dir cfg @ ''/'' @ clean_filename (guild_name g) @ ''-''
                   @ str_int (guild_id g) @ ''/#'' @ clean_filename cname @ ''-''
                   @ str_int cid"]
      by (simp add: make_filename_def)
  next
    case (DMChannel recipient)
    then show ?thesis
      by (simp add: make_filename_def dm_channel_user_def)
  next
    case (GroupChannel gname gid)
    show ?thesis
    proof (cases gname)
      case None
      with GroupChannel show ?thesis
        by (simp add: make_filename_def clean_filename_opt_def)
    next
      case (Some name)
      with GroupChannel show ?thesis
        using b [of "log_dir cfg @ ''/DM/'' @ clean_filename name @ ''-'' @ str_int gid"]
        by (simp add: make_filename_def clean_filename_opt_def)
    qed
  next
    case (OtherChannel g)
    then show ?thesis by (simp add: make_filename_def)
  qed
qed

text \<open>
  The two branches on the sample message, whose creation and edit times lie on the two
  sides of midnight.
\<close>

theorem make_filename_date_bucket_witness:
  "make_filename sample_config sample_message
     = Inr (Some ''logs/MyGuild-42/#general-99/2021-12-31.log'')
   \<and> map_sum id (map_option date_bucket) (make_filename sample_config sample_message)
       = Inr (Some ''2021-12-31'')
   \<and> map_sum id (map_option date_bucket)
         (make_filename sample_config (sample_message\<lparr>edited_at := Some sample_edited\<rparr>))
       = Inr (Some ''2022-01-01'')"
proof -
  have p: "make_filename sample_config sample_message
      = Inr (Some ''logs/MyGuild-42/#general-99/2021-12-31.log'')"
    by (simp add: make_filename_def sample_dates sample_message_def sample_config_def
        sample_guild_def clean_filename_def filename_class_def str_int_def str_nat.simps
        digit_char_def)
  have c: "map_sum id (map_option date_bucket) (make_filename sample_config sample_message)
      = Inr (Some ''2021-12-31'')"
    using make_filename_date_bucket [of sample_config sample_message]
    by (simp add: sample_message_def sample_dates)
  have e: "map_sum id (map_option date_bucket)
        (make_filename sample_config (sample_message\<lparr>edited_at := Some sample_edited\<rparr>))
      = Inr (Some ''2022-01-01'')"
    using make_filename_date_bucket
      [of sample_config "sample_message\<lparr>edited_at := Some sample_edited\<rparr>"]
    by (simp add: sample_message_def sample_dates)
  from p c e show ?thesis by blast
qed

text \<open>
  C2. The path of a message does not depend on \<open>use_localtime\<close>: two configurations that
  differ in that flag only give the same outcome of the path builder, and so the same
  path, character for character, wherever one is returned. The flag does change the time
  shown in the record: the sample message, written at 23:59:59 UTC, is stamped 00:59:59
  on a machine one hour east of UTC.
\<close>

theorem make_filename_ignores_use_localtime:
  "make_filename (cfg\<lparr>use_localtime := a\<rparr>) m = make_filename (cfg\<lparr>use_localtime := b\<rparr>) m
   \<and> make_message sample_env (sample_config\<lparr>use_localtime := True\<rparr>) sample_message
       \<noteq> make_message sample_env (sample_config\<lparr>use_localtime := False\<rparr>) sample_message"
proof -
  have path: "make_filename (cfg\<lparr>use_localtime := a\<rparr>) m
      = make_filename (cfg\<lparr>use_localtime := b\<rparr>) m"
    by (simp add: make_filename_def Let_def split: channel.split sum.split)
  have shown: "make_message sample_env (sample_config\<lparr>use_localtime := True\<rparr>) sample_message
      \<noteq> make_message sample_env (sample_config\<lparr>use_localtime := False\<rparr>) sample_message"
    unfolding sample_message_utc sample_message_local by simp
  from path shown show ?thesis by (rule conjI)
qed

subsection \<open>Physical lines: lemmas\<close>

lemma split_lines_nonempty: "split_lines s \<noteq> []"
  by (induction s) (auto split: list.splits)

lemma split_lines_Cons:
  "split_lines (c # cs) =
     (if c = newline then [] # split_lines cs
      else (c # hd (split_lines cs)) # tl (split_lines cs))"
  using split_lines_nonempty [of cs] by (cases "split_lines cs") simp_all

lemma split_lines_hd_tl: "hd (split_lines s) # tl (split_lines s) = split_lines s"
  using split_lines_nonempty [of s] by simp

lemma join_split_lines: "join_lines (split_lines s) = s"
proof (induction s)
  case Nil
  show ?case by simp
next
  case (Cons c cs)
  obtain l ls where ls: "split_lines cs = l # ls"
    using split_lines_nonempty [of cs] by (cases "split_lines cs") auto
  with Cons show ?case by (cases ls) auto
qed

lemma length_split_lines: "length (split_lines s) = count_list s newline + 1"
  using split_lines_nonempty
  by (induction s) (auto simp: split_lines_Cons simp del: split_lines.simps(2))

lemma split_lines_no_newline: "newline \<notin> set p \<Longrightarrow> split_lines p = [p]"
  by (induction p) (auto simp: split_lines_Cons simp del: split_lines.simps(2))

lemma split_lines_prepend:
  "newline \<notin> set p \<Longrightarrow> split_lines (p @ s) = (p @ hd (split_lines s)) # tl (split_lines s)"
  by (induction p) (auto simp: split_lines_Cons split_lines_hd_tl simp del: split_lines.simps(2))

lemma split_lines_str_replace:
  "newline \<notin> set mk \<Longrightarrow>
   split_lines (str_replace newline (newline # mk) s) =
     hd (split_lines s) # map (\<lambda>l. mk @ l) (tl (split_lines s))"
proof (induction s)
  case Nil
  show ?case by simp
next
  case (Cons c cs)
  show ?case
  proof (cases "c = newline")
    case True
    have "split_lines (str_replace newline (newline # mk) (c # cs))
        = [] # split_lines (mk @ str_replace newline (newline # mk) cs)"
      using True by simp
    also have "\<dots> = [] # (mk @ hd (split_lines cs)) # map (\<lambda>l. mk @ l) (tl (split_lines cs))"
      using Cons by (simp add: split_lines_prepend)
    also have "\<dots> = [] # map (\<lambda>l. mk @ l) (split_lines cs)"
      using split_lines_hd_tl [of cs] by (metis list.simps(9))
    finally show ?thesis using True by simp
  next
    case False
    with Cons show ?thesis
      by (simp add: split_lines_Cons del: split_lines.simps(2))
  qed
qed

subsection \<open>Record formatter: the message line\<close>

lemma to_bytes_little_ok:
  "0 \<le> n \<Longrightarrow> n < 2 ^ 64 \<Longrightarrow>
   to_bytes_little n 8 = Inr (map (\<lambda>i. nat (n div 256 ^ i mod 256)) [0..<8])"
  by (simp add: to_bytes_little_def)

lemma to_bytes_little_overflow:
  "n < 0 \<or> 2 ^ 64 \<le> n \<Longrightarrow> to_bytes_little n 8 = Inl OverflowError"
  by (auto simp: to_bytes_little_def)

text \<open>The record of a message without attachments whose identifier fits in 64 bits.\<close>

lemma make_message_shape:
  assumes "0 \<le> msg_id m" and "msg_id m < 2 ^ 64" and "attachments m = []"
  shows "make_message e cfg m =
    Inr (((if edited_at m \<noteq> None then ''[E:'' else ''['')
          @ b64encode (map (\<lambda>i. nat (msg_id m div 256 ^ i mod 256)) [0..<8]) @ '']'')
         @ '' ''
         @ strftime_HMS
             (if use_localtime cfg
              then astimezone_local e (case edited_at m of Some t \<Rightarrow> t | None \<Rightarrow> created_at m)
              else (case edited_at m of Some t \<Rightarrow> t | None \<Rightarrow> created_at m))
         @ '' ''
         @ (''<'' @ user_name (author m) @ ''#'' @ discriminator (author m) @ ''>'')
         @ '' ''
         @ str_replace newline (newline # newline_marker) (clean_content m)
         @ '' '')"
  unfolding make_message_def to_bytes_little_ok [OF assms(1,2)]
  by (simp add: Let_def assms(3))

text \<open>
  With an attachment the subscript of line 113 raises; an identifier outside 64 bits
  raises before that.
\<close>

lemma make_message_attachment_raises:
  assumes "0 \<le> msg_id m" and "msg_id m < 2 ^ 64" and "attachments m \<noteq> []"
  shows "make_message e cfg m = Inl TypeError"
proof -
  from assms(3) obtain a rest where "attachments m = a # rest"
    by (cases "attachments m") auto
  then show ?thesis
    unfolding make_message_def to_bytes_little_ok [OF assms(1,2)]
    by (simp add: Let_def attachment_getitem_def)
qed

text \<open>
  What the loop adds when the subscript gives the URL, as line 113 expects: a line break
  and \<open>(attach) \<close> with the URL for each attachment, in the order of the list.
\<close>

lemma format_attachments_with_url:
  "format_attachments (\<lambda>a key. Inr (url a)) acc atts
     = Inr (acc @ concat (map (\<lambda>a. newline # ''(attach) '' @ url a) atts))"
  by (induction atts arbitrary: acc) simp_all

text \<open>
  C5. For a message without attachments whose identifier fits in 64 bits, the record ends
  with the content and a space, where the content is the clean content with every line
  break replaced by a line break and the marker \<open>(newline) \<close>. A clean content with k
  line breaks gives k + 1 physical lines: the first as it was, every later one with the
  marker in front; taking the marker off the later lines and joining the lines gives the
  clean content back. (A message with an attachment gets no record: line 113 raises.)
\<close>

theorem make_message_newlines:
  assumes "0 \<le> msg_id m" and "msg_id m < 2 ^ 64" and "attachments m = []"
  shows "\<exists>pre content.
     make_message e cfg m = Inr (pre @ content @ '' '')
     \<and> content = str_replace newline (newline # ''(newline) '') (clean_content m)
     \<and> split_lines content =
         hd (split_lines (clean_content m))
           # map (\<lambda>l. ''(newline) '' @ l) (tl (split_lines (clean_content m)))
     \<and> length (split_lines content) = count_list (clean_content m) newline + 1
     \<and> join_lines (hd (split_lines content)
           # map (drop (length ''(newline) '')) (tl (split_lines content))) = clean_content m"
proof -
  let ?c = "clean_content m"
  let ?content = "str_replace newline (newline # ''(newline) '') ?c"
  have lines: "split_lines ?content =
      hd (split_lines ?c) # map (\<lambda>l. ''(newline) '' @ l) (tl (split_lines ?c))"
    by (rule split_lines_str_replace) simp
  have len: "length (split_lines ?content) = count_list ?c newline + 1"
    unfolding lines using length_split_lines [of ?c] split_lines_hd_tl [of ?c]
    by (metis length_Cons length_map)
  have undo: "join_lines (hd (split_lines ?content)
      # map (drop (length ''(newline) '')) (tl (split_lines ?content))) = ?c"
  proof -
    have "map (drop (length ''(newline) '')) (map (\<lambda>l. ''(newline) '' @ l) (tl (split_lines ?c)))
        = tl (split_lines ?c)"
      by (simp add: comp_def)
    then show ?thesis
      unfolding lines by (simp only: list.sel split_lines_hd_tl join_split_lines)
  qed
  have "\<exists>pre. make_message e cfg m = Inr (pre @ ?content @ '' '')"
    unfolding make_message_shape [OF assms] newline_marker_def
    by (metis append.assoc)
  with lines len undo show ?thesis by blast
qed

lemma b64_char_mem: "k < 64 \<Longrightarrow> b64_char k \<in> set b64_alphabet"
  unfolding b64_char_def by (rule nth_mem) (simp add: b64_alphabet_def)

lemma b64encode_chars:
  "\<forall>b \<in> set bs. b < 256 \<Longrightarrow> set (b64encode bs) \<subseteq> insert CHR ''='' (set b64_alphabet)"
proof (induction bs rule: b64encode.induct)
  case (1 a b c rest)
  then have "a < 256" "b < 256" "c < 256" by simp_all
  then have "a * 65536 + b * 256 + c < 64 * 262144" by arith
  then have "(a * 65536 + b * 256 + c) div 262144 < 64"
    by (simp add: less_mult_imp_div_less)
  with 1 show ?case by (simp add: Let_def b64_char_mem)
next
  case (2 a b)
  then have "a < 256" "b < 256" by simp_all
  then have "(a * 256 + b) * 4 < 64 * 4096" by arith
  then have "(a * 256 + b) * 4 div 4096 < 64"
    by (simp add: less_mult_imp_div_less)
  then show ?case by (simp add: Let_def b64_char_mem)
next
  case (3 a)
  then have "a * 16 < 64 * 64" by simp
  then have "a * 16 div 64 < 64"
    by (simp add: less_mult_imp_div_less)
  then show ?case by (simp add: Let_def b64_char_mem)
next
  case 4
  show ?case by simp
qed

lemma id_bytes_small:
  "\<forall>b \<in> set (map (\<lambda>i. nat (n div 256 ^ i mod 256)) [0..<8]). b < 256"
  by (auto simp: nat_less_iff)

lemma id_token_chars:
  "set (b64encode (map (\<lambda>i. nat (n div 256 ^ i mod 256)) [0..<8]))
     \<subseteq> insert CHR ''='' (set b64_alphabet)"
  by (rule b64encode_chars) (rule id_bytes_small)

lemma b64_alphabet_excludes:
  "CHR '']'' \<notin> insert CHR ''='' (set b64_alphabet)"
  "CHR '':'' \<notin> insert CHR ''='' (set b64_alphabet)"
  by (simp_all add: b64_alphabet_def)

lemma b64encode_length2: "bs \<noteq> [] \<Longrightarrow> 2 \<le> length (b64encode bs)"
  by (induction bs rule: b64encode.induct) (simp_all add: Let_def)

lemma prefix_two_mem: "prefix [a, b] (xs @ ys) \<Longrightarrow> 2 \<le> length xs \<Longrightarrow> b \<in> set xs"
proof -
  assume p: "prefix [a, b] (xs @ ys)" and l: "2 \<le> length xs"
  from l obtain x1 x2 xs' where "xs = x1 # x2 # xs'"
    by (cases xs; cases "tl xs") auto
  with p show ?thesis by simp
qed

lemma base256_digits:
  "(\<Sum>i<k. (n div 256 ^ i mod 256) * 256 ^ i) = n mod 256 ^ k" for n :: int
proof (induction k)
  case 0
  show ?case by simp
next
  case (Suc k)
  have "n mod (256 ^ k * 256) = 256 ^ k * (n div 256 ^ k mod 256) + n mod 256 ^ k"
    by (rule zmod_zmult2_eq) simp
  with Suc show ?case by (simp add: mult.commute)
qed

lemma id_bytes_value:
  assumes "0 \<le> n" and "n < 2 ^ 64"
  shows "(\<Sum>i<8. int (map (\<lambda>i. nat (n div 256 ^ i mod 256)) [0..<8] ! i) * 256 ^ i) = n"
proof -
  have "(\<Sum>i<8. int (map (\<lambda>i. nat (n div 256 ^ i mod 256)) [0..<8] ! i) * 256 ^ i)
      = (\<Sum>i<8. (n div 256 ^ i mod 256) * 256 ^ i)"
    by (rule sum.cong) simp_all
  also have "\<dots> = n mod 256 ^ 8" by (rule base256_digits)
  also have "\<dots> = n" using assms by simp
  finally show ?thesis .
qed

text \<open>
  C4. For a message without attachments whose identifier fits in 64 bits, a record is
  produced (with an attachment line 113 raises) and it starts with a bracketed
  token: \<open>[\<close>, then \<open>E:\<close> exactly when the message has an edit time, then the base64
  text of the identifier's eight bytes in little-endian order (eight values below 256
  whose base-256 value, lowest first, is the identifier), then \<open>]\<close>, which does not occur
  in the base64 text. The identifier 1 has the bytes 01 00 00 00 00 00 00 00 and the token
  text \<open>AQAAAAAAAAA=\<close>.
\<close>

theorem make_message_id_token:
  assumes "0 \<le> msg_id m" and "msg_id m < 2 ^ 64" and "attachments m = []"
  shows "\<exists>bs line.
     make_message e cfg m = Inr line
     \<and> length bs = 8 \<and> (\<forall>b \<in> set bs. b < 256)
     \<and> (\<Sum>i<8. int (bs ! i) * 256 ^ i) = msg_id m
     \<and> prefix ((if edited_at m = None then ''['' else ''[E:'') @ b64encode bs @ '']'') line
     \<and> CHR '']'' \<notin> set (b64encode bs)
     \<and> (prefix ''[E:'' line \<longleftrightarrow> edited_at m \<noteq> None)
     \<and> (msg_id m = 1 \<longrightarrow> bs = [1, 0, 0, 0, 0, 0, 0, 0] \<and> b64encode bs = ''AQAAAAAAAAA='')"
proof -
  let ?bs = "map (\<lambda>i. nat (msg_id m div 256 ^ i mod 256)) [0..<8]"
  let ?tok = "(if edited_at m = None then ''['' else ''[E:'') @ b64encode ?bs @ '']''"
  define rest where "rest = '' ''
      @ strftime_HMS
          (if use_localtime cfg
           then astimezone_local e (case edited_at m of Some t \<Rightarrow> t | None \<Rightarrow> created_at m)
           else (case edited_at m of Some t \<Rightarrow> t | None \<Rightarrow> created_at m))
      @ '' '' @ (''<'' @ user_name (author m) @ ''#'' @ discriminator (author m) @ ''>'')
      @ '' '' @ str_replace newline (newline # newline_marker) (clean_content m)
      @ '' ''"
  have line: "make_message e cfg m = Inr (?tok @ rest)"
    unfolding make_message_shape [OF assms] rest_def by (cases "edited_at m") simp_all
  have len: "length ?bs = 8" by simp
  have small: "\<forall>b \<in> set ?bs. b < 256" by (rule id_bytes_small)
  have val: "(\<Sum>i<8. int (?bs ! i) * 256 ^ i) = msg_id m"
    using assms(1,2) by (rule id_bytes_value)
  have pre: "prefix ?tok (?tok @ rest)" by simp
  have chars: "set (b64encode ?bs) \<subseteq> insert CHR ''='' (set b64_alphabet)"
    by (rule id_token_chars)
  have close: "CHR '']'' \<notin> set (b64encode ?bs)"
    using chars b64_alphabet_excludes(1) by blast
  have colon: "CHR '':'' \<notin> set (b64encode ?bs)"
    using chars b64_alphabet_excludes(2) by blast
  have mark: "prefix ''[E:'' (?tok @ rest) \<longleftrightarrow> edited_at m \<noteq> None"
  proof (cases "edited_at m")
    case None
    have "2 \<le> length (b64encode ?bs)"
      by (rule b64encode_length2) simp
    then have "\<not> prefix ''E:'' (b64encode ?bs @ '']'' @ rest)"
      using colon prefix_two_mem [of "CHR ''E''" "CHR '':''" "b64encode ?bs" "'']'' @ rest"]
      by blast
    with None show ?thesis by simp
  next
    case (Some t)
    then show ?thesis by simp
  qed
  have one: "msg_id m = 1 \<longrightarrow>
      ?bs = [1, 0, 0, 0, 0, 0, 0, 0] \<and> b64encode ?bs = ''AQAAAAAAAAA=''"
  proof
    assume that: "msg_id m = 1"
    have "to_bytes_little 1 8 = Inr ?bs"
      using to_bytes_little_ok [of "msg_id m"] that by simp
    then have "?bs = [1, 0, 0, 0, 0, 0, 0, 0]"
      unfolding bytes_of_one by simp
    then show "?bs = [1, 0, 0, 0, 0, 0, 0, 0] \<and> b64encode ?bs = ''AQAAAAAAAAA=''"
      by (simp add: b64_char_def b64_alphabet_def)
  qed
  have "make_message e cfg m = Inr (?tok @ rest)
     \<and> length ?bs = 8 \<and> (\<forall>b \<in> set ?bs. b < 256)
     \<and> (\<Sum>i<8. int (?bs ! i) * 256 ^ i) = msg_id m
     \<and> prefix ?tok (?tok @ rest)
     \<and> CHR '']'' \<notin> set (b64encode ?bs)
     \<and> (prefix ''[E:'' (?tok @ rest) \<longleftrightarrow> edited_at m \<noteq> None)
     \<and> (msg_id m = 1 \<longrightarrow> ?bs = [1, 0, 0, 0, 0, 0, 0, 0] \<and> b64encode ?bs = ''AQAAAAAAAAA='')"
    using line len small val pre close mark one by (intro conjI) assumption+
  then show ?thesis by (intro exI)
qed

subsection \<open>The message line on the sample message\<close>

lemma sample_id_range: "0 \<le> msg_id sample_message" "msg_id sample_message < 2 ^ 64"
  by (simp_all add: sample_fields)

text \<open>The sample message has the identifier 1, no edit time and no attachment.\<close>

theorem make_message_id_token_witness:
  "\<exists>line. make_message sample_env sample_config sample_message = Inr line
     \<and> prefix ''[AQAAAAAAAAA=]'' line"
proof -
  from make_message_id_token [OF sample_id_range sample_fields(6), of sample_env sample_config]
  obtain bs line where
    l: "make_message sample_env sample_config sample_message = Inr line" and
    p: "prefix ((if edited_at sample_message = None then ''['' else ''[E:'')
                 @ b64encode bs @ '']'') line" and
    o: "msg_id sample_message = 1 \<longrightarrow>
        bs = [1, 0, 0, 0, 0, 0, 0, 0] \<and> b64encode bs = ''AQAAAAAAAAA=''"
    by blast
  from o have "b64encode bs = ''AQAAAAAAAAA=''" using sample_fields(1) by blast
  with p have "prefix ''[AQAAAAAAAAA=]'' line" by (simp add: sample_fields)
  with l show ?thesis by blast
qed

text \<open>The sample content \<open>hi\<close>, line break, \<open>there\<close> gives two physical lines.\<close>

theorem make_message_newlines_witness:
  "\<exists>pre content.
     make_message sample_env sample_config sample_message = Inr (pre @ content @ '' '')
     \<and> split_lines content = [''hi'', ''(newline) there'']
     \<and> join_lines [''hi'', ''there''] = clean_content sample_message"
proof -
  from make_message_newlines [OF sample_id_range sample_fields(6), of sample_env sample_config]
  obtain pre content where
    l: "make_message sample_env sample_config sample_message = Inr (pre @ content @ '' '')" and
    s: "split_lines content =
          hd (split_lines (clean_content sample_message))
            # map (\<lambda>l. ''(newline) '' @ l) (tl (split_lines (clean_content sample_message)))" and
    j: "join_lines (hd (split_lines content)
          # map (drop (length ''(newline) '')) (tl (split_lines content)))
        = clean_content sample_message"
    by blast
  have c: "split_lines (clean_content sample_message) = [''hi'', ''there'']"
    by (simp add: sample_message_def)
  from s c have s': "split_lines content = [''hi'', ''(newline) there'']" by simp
  from j s' have "join_lines [''hi'', ''there''] = clean_content sample_message" by simp
  with l s' show ?thesis by blast
qed

subsection \<open>Attachments\<close>

lemma sample_attached_fields:
  "0 \<le> msg_id sample_attached" "msg_id sample_attached < 2 ^ 64"
  "attachments sample_attached \<noteq> []" "length (attachments sample_attached) = 2"
  by (simp_all add: sample_attached_def sample_fields)

text \<open>
  C6. A message with n attachments should give n lines \<open>(attach) url\<close> after the primary
  line. The loop builds them from \<^verbatim>\<open>attach['url']\<close>, a subscript that the library's
  attachment objects do not have: the sample message with two attachments, and the same
  message with one, raise TypeError and give no record at all. Without attachments the
  record is produced and has no such line.
\<close>

theorem message_with_attachments_raises:
  "make_message sample_env sample_config sample_attached = Inl TypeError
   \<and> make_message sample_env sample_config
        (sample_message\<lparr>attachments := [\<lparr>url = ''http://a/1.png''\<rparr>]\<rparr>) = Inl TypeError
   \<and> make_message sample_env (sample_config\<lparr>use_localtime := False\<rparr>) sample_message
        = Inr (''[AQAAAAAAAAA=] [23:59:59] <alice#0001> hi'' @ [newline] @ ''(newline) there '')"
proof -
  have two: "make_message sample_env sample_config sample_attached = Inl TypeError"
    using sample_attached_fields(1,2,3) by (rule make_message_attachment_raises)
  have one: "make_message sample_env sample_config
      (sample_message\<lparr>attachments := [\<lparr>url = ''http://a/1.png''\<rparr>]\<rparr>) = Inl TypeError"
    by (rule make_message_attachment_raises) (simp_all add: sample_fields)
  from two one sample_message_utc show ?thesis by blast
qed

subsection \<open>Audit events: unbound names\<close>

text \<open>
  Neither \<open>datetime\<close> nor \<open>IGNORE_GUILDS\<close> is bound in run.py, so the first statement of
  each audit function and the guild test of each audit handler raise NameError, whatever
  the arguments.
\<close>

lemma datetime_unbound: "lookup_global ''datetime'' = Inl (NameError ''datetime'')"
  by (simp add: lookup_global_def module_globals_def)

lemma IGNORE_GUILDS_unbound:
  "lookup_global ''IGNORE_GUILDS'' = Inl (NameError ''IGNORE_GUILDS'')"
  by (simp add: lookup_global_def module_globals_def)

lemma datetime_utcnow_raises: "datetime_utcnow e = Inl (NameError ''datetime'')"
  by (simp add: datetime_utcnow_def datetime_unbound)

lemma make_audit_filename_raises:
  "make_audit_filename e cfg event g = Inl (NameError ''datetime'')"
  by (simp add: make_audit_filename_def datetime_utcnow_raises)

lemma make_audit_raises: "make_audit e cfg event g = Inl (NameError ''datetime'')"
  by (simp add: make_audit_def datetime_utcnow_raises)

lemma make_audit_ban_raises: "make_audit_ban e cfg event g u = Inl (NameError ''datetime'')"
  by (simp add: make_audit_ban_def datetime_utcnow_raises)

lemma guild_check_raises:
  "guild_in_IGNORE_GUILDS (Some g) = Inl (NameError ''IGNORE_GUILDS'')"
  by (simp add: guild_in_IGNORE_GUILDS_def IGNORE_GUILDS_unbound)

lemma audit_handlers_raise:
  "on_member_ban e cfg (Some g) u w = (Inl (NameError ''IGNORE_GUILDS''), w)"
  "on_member_unban e cfg (Some g) u w = (Inl (NameError ''IGNORE_GUILDS''), w)"
  "on_guild_available e cfg (Some g) w = (Inl (NameError ''IGNORE_GUILDS''), w)"
  "on_guild_unavailable e cfg (Some g) w = (Inl (NameError ''IGNORE_GUILDS''), w)"
  "on_guild_remove e cfg (Some g) w = (Inl (NameError ''IGNORE_GUILDS''), w)"
  "on_guild_add e cfg (Some g) w = (Inl (NameError ''IGNORE_GUILDS''), w)"
  by (simp_all add: on_member_ban_def on_member_unban_def on_guild_available_def
      on_guild_unavailable_def on_guild_remove_def on_guild_add_def guild_check_raises)

lemma message_handlers_drop:
  assumes "message_guild m = Some g" and "guild_id g \<in> set (ignore_servers cfg)"
  shows "on_message e cfg m w = (Inr (), w)" and "on_message_edit e cfg before m w = (Inr (), w)"
  using assms by (simp_all add: on_message_def on_message_edit_def)

text \<open>
  What the bodies compute from a given clock value: the root bucket for guild add and
  remove, the guild's bucket otherwise, and no record for an unknown event.
\<close>

lemma make_audit_filename_at_forms:
  "make_audit_filename_at t cfg ''on_guild_add'' g
     = Inr (log_dir cfg @ ''/AUDIT/'' @ strftime_F t @ ''.log'')"
  "make_audit_filename_at t cfg ''on_guild_remove'' g
     = Inr (log_dir cfg @ ''/AUDIT/'' @ strftime_F t @ ''.log'')"
  "event \<noteq> ''on_guild_add'' \<Longrightarrow> event \<noteq> ''on_guild_remove'' \<Longrightarrow>
   make_audit_filename_at t cfg event (Some gd)
     = Inr (log_dir cfg @ ''/'' @ clean_filename (guild_name gd) @ ''-''
            @ str_int (guild_id gd) @ ''/AUDIT/'' @ strftime_F t @ ''.log'')"
  by (simp_all add: make_audit_filename_at_def)

lemma audit_formatters_at_unknown:
  "event \<notin> {''on_guild_unavailable'', ''on_guild_available'', ''on_guild_remove'',
              ''on_guild_add''} \<Longrightarrow> make_audit_at e t cfg event g = Inr None"
  "event \<notin> {''on_member_ban'', ''on_member_unban''} \<Longrightarrow>
   make_audit_ban_at e t cfg event g u = Inr None"
  by (simp_all add: make_audit_at_def make_audit_ban_at_def)

text \<open>
  The sample guild is in the sample ignore set. With an empty ignore set the sample
  message is written to its log file and printed.
\<close>

lemma sample_ignored: "guild_id sample_guild \<in> set (ignore_servers sample_config)"
  by (simp add: sample_guild_def sample_config_def)

lemma sample_message_guild: "message_guild sample_message = Some sample_guild"
  by (simp add: message_guild_def sample_message_def)

lemma sample_message_logged:
  "on_message sample_env (sample_config\<lparr>ignore_servers := []\<rparr>) sample_message sample_world
     = (Inr (),
        \<lparr>dirs = {''logs/MyGuild-42/#general-99''},
         files = [''logs/MyGuild-42/#general-99/2021-12-31.log'' \<mapsto>
           ''[AQAAAAAAAAA=] [23:59:59] <alice#0001> hi'' @ [newline] @ ''(newline) there ''
           @ [newline]],
         console =
           [''[AQAAAAAAAAA=] [23:59:59] <alice#0001> hi'' @ [newline] @ ''(newline) there '']\<rparr>)"
proof -
  have f: "make_filename (sample_config\<lparr>ignore_servers := []\<rparr>) sample_message
      = Inr (Some ''logs/MyGuild-42/#general-99/2021-12-31.log'')"
    by (simp add: make_filename_def sample_dates sample_message_def sample_config_def
        sample_guild_def clean_filename_def filename_class_def str_int_def str_nat.simps
        digit_char_def)
  have m: "make_message sample_env (sample_config\<lparr>ignore_servers := []\<rparr>) sample_message
      = make_message sample_env (sample_config\<lparr>use_localtime := False\<rparr>) sample_message"
    unfolding make_message_shape [OF sample_id_range sample_fields(6)]
    by (simp add: sample_config_def)
  have d: "dirname ''logs/MyGuild-42/#general-99/2021-12-31.log'' = ''logs/MyGuild-42/#general-99''"
    by (simp add: dirname_def)
  show ?thesis
    unfolding on_message_def f m sample_message_utc
    by (simp add: sample_message_guild write_file_def d print_def sample_world_def
        sample_guild_def)
qed

text \<open>A direct message is not logged: the path builder raises before anything is written.\<close>

lemma direct_message_raises:
  "on_message e cfg (m\<lparr>channel := DMChannel u\<rparr>) w = (Inl AttributeError, w)"
  by (simp add: on_message_def message_guild_def make_filename_def dm_channel_user_def)

text \<open>
  C7. An event of a guild in the ignore set must be dropped silently, for every kind of
  event. The message handlers do so: they return normally and leave directories, files
  and console as they were. The audit handlers (here ban and guild availability; all six
  test \<^verbatim>\<open>guild.id in IGNORE_GUILDS\<close>) never consult the configured set: the test
  raises NameError. Nothing is written, but the handler ends in an exception, which the
  gateway library reports, instead of a silent return.
\<close>

theorem audit_event_of_ignored_guild_raises:
  "guild_id sample_guild \<in> set (ignore_servers sample_config)
   \<and> on_message sample_env sample_config sample_message sample_world = (Inr (), sample_world)
   \<and> on_member_ban sample_env sample_config (Some sample_guild) sample_user sample_world
       = (Inl (NameError ''IGNORE_GUILDS''), sample_world)
   \<and> on_guild_available sample_env sample_config (Some sample_guild) sample_world
       = (Inl (NameError ''IGNORE_GUILDS''), sample_world)"
  using sample_ignored message_handlers_drop(1) [OF sample_message_guild sample_ignored]
  by (simp add: audit_handlers_raise)

text \<open>
  C8. \<open>make_audit_filename\<close> should give \<open>{root}/AUDIT/{date}.log\<close> for guild add and
  remove and the guild's \<open>AUDIT\<close> directory for the other events. Its first statement
  reads the unbound global \<open>datetime\<close>, so every call raises NameError and no path is
  returned.
\<close>

theorem audit_path_raises_NameError:
  "make_audit_filename sample_env sample_config ''on_guild_add'' (Some sample_guild)
     = Inl (NameError ''datetime'')
   \<and> make_audit_filename sample_env sample_config ''on_guild_remove'' (Some sample_guild)
     = Inl (NameError ''datetime'')
   \<and> make_audit_filename sample_env sample_config ''on_member_ban'' (Some sample_guild)
     = Inl (NameError ''datetime'')"
  by (simp add: make_audit_filename_raises)

text \<open>
  C9. A channel of an unknown type gives no path, as claimed. The audit formatters
  should give no record for an unknown event and a record for a known one; both read the
  unbound global \<open>datetime\<close> in their first statement, so they raise NameError for
  unknown and known events alike.
\<close>

theorem audit_formatters_raise_NameError:
  "make_filename sample_config (sample_message\<lparr>channel := OtherChannel None\<rparr>) = Inr None
   \<and> make_audit sample_env sample_config ''on_typing'' (Some sample_guild)
       = Inl (NameError ''datetime'')
   \<and> make_audit_ban sample_env sample_config ''on_typing'' (Some sample_guild) sample_user
       = Inl (NameError ''datetime'')
   \<and> make_audit sample_env sample_config ''on_guild_add'' (Some sample_guild)
       = Inl (NameError ''datetime'')
   \<and> make_audit_ban sample_env sample_config ''on_member_ban'' (Some sample_guild) sample_user
       = Inl (NameError ''datetime'')"
  by (simp add: make_audit_raises make_audit_ban_raises make_filename_def)

end
